theory Spec2Isabelle
  imports Complex_Main
begin

section \<open>Numbers\<close>

text \<open>
  The numbers of the program are JavaScript numbers. They are modelled as the real
  numbers they approximate: rounding, NaN, the infinities and signed zeros are not
  part of the model.
\<close>

definition atan2 :: "real \<Rightarrow> real \<Rightarrow> real" where
  \<comment> \<open>\<^verbatim>\<open>Math.atan2(y, x)\<close>: the angle of the point \<open>(x, y)\<close>, in \<open>(-\<pi>, \<pi>]\<close>; 0 at the origin.\<close>
  "atan2 y x =
     (if 0 < x then arctan (y / x)
      else if x < 0 then (if 0 \<le> y then arctan (y / x) + pi else arctan (y / x) - pi)
      else if 0 < y then pi / 2
      else if y < 0 then - (pi / 2)
      else 0)"



section \<open>Geodesic functions (compass-radar.ts)\<close>

definition EARTH_RADIUS :: real where
  "EARTH_RADIUS = 6371000"

type_synonym Coord = "real \<times> real"


definition distance :: "Coord \<Rightarrow> Coord \<Rightarrow> real" where
  "distance first second =
     (let dlat = fst second - fst first;
          dlon = snd second - snd first;
          a = (sin (dlat / 2))\<^sup>2 + cos (fst first) * cos (fst second) * (sin (dlon / 2))\<^sup>2;
          c = 2 * atan2 (sqrt a) (sqrt (1 - a))
      in EARTH_RADIUS * c)"

section \<open>Locations\<close>

record GeolocationPosition =
  latitude :: real
  longitude :: real
  coords_accuracy :: real
  position_timestamp :: real

text \<open>
  What the geolocation signal holds: \<^verbatim>\<open>undefined\<close> before the first event, a
  \<^verbatim>\<open>GeolocationPositionError\<close> with its message, or a position.
\<close>

datatype location =
    Undefined
  | PositionError string
  | Position GeolocationPosition

datatype thrown =
    ThrownPositionError string
  | Error string

definition radians :: "GeolocationPosition \<Rightarrow> Coord" where
  \<comment> \<open>the array built at lines 449 to 452\<close>
  "radians event = (latitude event / 180 * pi, longitude event / 180 * pi)"

fun parseLocationEvent :: "location \<Rightarrow> thrown + Coord" where
  "parseLocationEvent (PositionError m) = Inl (ThrownPositionError m)"
| "parseLocationEvent Undefined = Inl (Error ''No location available'')"
| "parseLocationEvent (Position event) = Inr (radians event)"

section \<open>localStorageValue\<close>

text \<open>
  One \<^verbatim>\<open>localStorageValue(key, defaultValue)\<close> object: \<open>cached\<close> is its closure variable
  \<^verbatim>\<open>value\<close> (\<open>None\<close> is \<^verbatim>\<open>undefined\<close>), \<open>saved\<close> is the item of \<^verbatim>\<open>localStorage\<close> under its
  key (\<open>None\<close> is the \<^verbatim>\<open>null\<close> of an absent item). No other key is read or written by the
  object. The item is held as the value that \<^verbatim>\<open>JSON.parse\<close> gives back for it.
\<close>

record 'a localStorageValue =
  cached :: "'a option"
  saved :: "'a option"

definition lsv_get :: "'a option \<Rightarrow> 'a localStorageValue \<Rightarrow> 'a option \<times> 'a localStorageValue" where
  "lsv_get defaultValue s =
     (let s' = (if cached s = None
                then (case saved s of
                        Some savedValue \<Rightarrow> s\<lparr>cached := Some savedValue\<rparr>
                      | None \<Rightarrow> s\<lparr>cached := defaultValue\<rparr>)
                else s)
      in (cached s', s'))"

definition lsv_set :: "'a \<Rightarrow> 'a localStorageValue \<Rightarrow> 'a localStorageValue" where
  "lsv_set newValue s = s\<lparr>cached := Some newValue, saved := Some newValue\<rparr>"

definition lsv_clear :: "'a localStorageValue \<Rightarrow> 'a localStorageValue" where
  "lsv_clear s = s\<lparr>cached := None, saved := None\<rparr>"

section \<open>The location history (\<^verbatim>\<open>$recordHistory\<close>)\<close>

record LocationHistoryEntry =
  coord :: Coord
  accuracy :: real
  timestamp :: real

definition MAX_HISTORY_LENGTH :: nat where
  "MAX_HISTORY_LENGTH = 100"

definition splice_front :: "'a list \<Rightarrow> 'a list" where
  \<comment> \<open>\<^verbatim>\<open>if (history.length > MAX) history.splice(0, history.length - MAX)\<close>\<close>
  "splice_front history =
     (if length history > MAX_HISTORY_LENGTH
      then drop (length history - MAX_HISTORY_LENGTH) history
      else history)"

definition at_last :: "'a list \<Rightarrow> 'a option" where
  \<comment> \<open>\<^verbatim>\<open>history.at(-1)\<close>\<close>
  "at_last xs = (if xs = [] then None else Some (last xs))"

definition mergeCondition :: "Coord \<Rightarrow> GeolocationPosition \<Rightarrow> LocationHistoryEntry \<Rightarrow> bool" where
  "mergeCondition c location lastEntry \<longleftrightarrow>
     distance c (coord lastEntry) < max (accuracy lastEntry) (coords_accuracy location)
     \<and> position_timestamp location - timestamp lastEntry < 30000"

definition mergedEntry :: "Coord \<Rightarrow> GeolocationPosition \<Rightarrow> LocationHistoryEntry \<Rightarrow> LocationHistoryEntry" where
  "mergedEntry c location lastEntry =
     (let coordMergeT =
            (min (coords_accuracy location) (accuracy lastEntry)
               / max (coords_accuracy location) (accuracy lastEntry)) * 0.5;
          coordMerge =
            (if coords_accuracy location < accuracy lastEntry
             then (fst c * (1 - coordMergeT) + fst (coord lastEntry) * coordMergeT,
                   snd c * (1 - coordMergeT) + snd (coord lastEntry) * coordMergeT)
             else (fst (coord lastEntry) * (1 - coordMergeT) + fst c * coordMergeT,
                   snd (coord lastEntry) * (1 - coordMergeT) + snd c * coordMergeT))
      in \<lparr>coord = coordMerge,
          accuracy = min (coords_accuracy location) (accuracy lastEntry),
          timestamp = (position_timestamp location + timestamp lastEntry) * 0.5\<rparr>)"

definition plainEntry :: "Coord \<Rightarrow> GeolocationPosition \<Rightarrow> LocationHistoryEntry" where
  "plainEntry c location =
     \<lparr>coord = c, accuracy = coords_accuracy location, timestamp = position_timestamp location\<rparr>"

definition nextHistory :: "LocationHistoryEntry list \<Rightarrow> Coord \<Rightarrow> GeolocationPosition
    \<Rightarrow> LocationHistoryEntry list" where
  \<comment> \<open>lines 50 to 88: the array handed to \<^verbatim>\<open>locationHistory.set\<close>\<close>
  "nextHistory history0 c location =
     (let history = splice_front history0 in
      case at_last history of
        Some lastEntry \<Rightarrow>
          if mergeCondition c location lastEntry
          then butlast history @ [mergedEntry c location lastEntry]
          else history @ [plainEntry c location]
      | None \<Rightarrow> history @ [plainEntry c location])"

definition recordHistory :: "LocationHistoryEntry list localStorageValue \<Rightarrow> location
    \<Rightarrow> thrown + (location \<times> LocationHistoryEntry list localStorageValue)" where
  \<comment> \<open>one run of the body of \<^verbatim>\<open>$recordHistory\<close> with \<^verbatim>\<open>geolocation.get()\<close> giving \<open>loc\<close>\<close>
  "recordHistory locationHistory loc =
     (case loc of
        Position location \<Rightarrow>
          (case parseLocationEvent loc of
             Inl e \<Rightarrow> Inl e
           | Inr c \<Rightarrow>
               (let (got, s1) = lsv_get None locationHistory;
                    history = (case got of Some h \<Rightarrow> h | None \<Rightarrow> [])
                in Inr (loc, lsv_set (nextHistory history c location) s1)))
      | _ \<Rightarrow> Inr (loc, locationHistory))"

definition stored_history :: "LocationHistoryEntry list localStorageValue
    \<Rightarrow> LocationHistoryEntry list" where
  \<comment> \<open>\<^verbatim>\<open>this.locationHistory.get() ?? []\<close>, the history as every reader sees it\<close>
  "stored_history locationHistory =
     (case fst (lsv_get None locationHistory) of Some h \<Rightarrow> h | None \<Rightarrow> [])"

definition history_after :: "LocationHistoryEntry list localStorageValue \<Rightarrow> location
    \<Rightarrow> thrown + LocationHistoryEntry list" where
  \<comment> \<open>the history read back after one run of \<^verbatim>\<open>$recordHistory\<close>, or what the run threw\<close>
  "history_after locationHistory loc =
     (case recordHistory locationHistory loc of
        Inl e \<Rightarrow> Inl e
      | Inr (r, s) \<Rightarrow> Inr (stored_history s))"

fun recordAll :: "LocationHistoryEntry list localStorageValue \<Rightarrow> location list
    \<Rightarrow> thrown + LocationHistoryEntry list localStorageValue" where
  \<comment> \<open>the body of \<^verbatim>\<open>$recordHistory\<close> run once for each value of the geolocation signal\<close>
  "recordAll s [] = Inr s"
| "recordAll s (loc # locs) =
     (case recordHistory s loc of
        Inl e \<Rightarrow> Inl e
      | Inr (r, s') \<Rightarrow> recordAll s' locs)"

definition fix_at :: "nat \<Rightarrow> GeolocationPosition" where
  \<comment> \<open>test input: the fix number \<open>i\<close> of a device that stands still and reports every 30 s\<close>
  "fix_at i =
     \<lparr>latitude = 0, longitude = 0, coords_accuracy = 5, position_timestamp = 30000 * real i\<rparr>"

definition empty_store :: "'a localStorageValue" where
  \<comment> \<open>a fresh object over an empty \<^verbatim>\<open>localStorage\<close>\<close>
  "empty_store = \<lparr>cached = None, saved = None\<rparr>"

text \<open>
  The merged entry in the words of the specification: the position with the smaller
  accuracy radius is weighted \<open>1 - t\<close>, the other one \<open>t\<close>. Where the two radii are equal
  the specification names no target; the sample is taken here.
\<close>

definition spec_blend :: "Coord \<Rightarrow> real \<Rightarrow> real \<Rightarrow> Coord \<Rightarrow> real \<Rightarrow> real \<Rightarrow> LocationHistoryEntry" where
  "spec_blend sampleCoord sampleAcc sampleTime lastCoord lastAcc lastTime =
     (let t = min sampleAcc lastAcc / max sampleAcc lastAcc * 0.5;
          more = (if sampleAcc \<le> lastAcc then sampleCoord else lastCoord);
          less = (if sampleAcc \<le> lastAcc then lastCoord else sampleCoord)
      in \<lparr>coord = (fst more * (1 - t) + fst less * t, snd more * (1 - t) + snd less * t),
          accuracy = min sampleAcc lastAcc,
          timestamp = (sampleTime + lastTime) / 2\<rparr>)"

section \<open>Bookmarks\<close>

record LocationBookmark =
  bookmark_coord :: Coord
  hue :: real
  label :: "string option"
  createdAt :: "real option"

definition addBookmark :: "real \<Rightarrow> real \<Rightarrow> Coord \<Rightarrow> LocationBookmark list localStorageValue
    \<Rightarrow> LocationBookmark list localStorageValue" where
  \<comment> \<open>\<open>random\<close> is what \<^verbatim>\<open>Math.random()\<close> returns and \<open>now\<close> what \<^verbatim>\<open>Date.now()\<close> returns\<close>
  "addBookmark random now point bookmarks =
     (let h = random * 360;
          (got, s1) = lsv_get None bookmarks;
          old = (case got of Some b \<Rightarrow> b | None \<Rightarrow> [])
      in lsv_set (old @ [\<lparr>bookmark_coord = point, hue = h, label = None, createdAt = Some now\<rparr>]) s1)"

definition clearBookmarks :: "LocationBookmark list localStorageValue
    \<Rightarrow> LocationBookmark list localStorageValue" where
  "clearBookmarks bookmarks = lsv_clear bookmarks"

section \<open>listeningSignal (async-signal.ts)\<close>








section \<open>asyncComputed (async-signal.ts)\<close>

text \<open>
  The state of one \<^verbatim>\<open>asyncComputed(input, compute)\<close>: the variable \<^verbatim>\<open>counter\<close> and the
  signal \<^verbatim>\<open>sigState\<close>, which holds \<^verbatim>\<open>undefined\<close> or a pair of a count and a value. The
  asynchronous function runs up to its \<^verbatim>\<open>await\<close> when the body of \<^verbatim>\<open>computeUpdate\<close> runs
  (\<open>async_start\<close>); the rest runs when the promise of \<^verbatim>\<open>compute\<close> settles, with the count
  taken at the start (\<open>async_resolved\<close>, \<open>async_rejected\<close>).
\<close>

record 'b asyncState =
  counter :: nat
  async_sigState :: "(nat \<times> 'b) option"

definition async_init :: "'b asyncState" where
  "async_init = \<lparr>counter = 0, async_sigState = None\<rparr>"

definition async_start :: "'b asyncState \<Rightarrow> nat \<times> 'b asyncState" where
  \<comment> \<open>\<^verbatim>\<open>const count = counter++\<close>\<close>
  "async_start s = (counter s, s\<lparr>counter := counter s + 1\<rparr>)"

definition async_resolved :: "nat \<Rightarrow> 'b \<Rightarrow> 'b asyncState \<Rightarrow> 'b asyncState" where
  "async_resolved count result s =
     (case async_sigState s of
        None \<Rightarrow> s\<lparr>async_sigState := Some (count, result)\<rparr>
      | Some current \<Rightarrow>
          if fst current < count then s\<lparr>async_sigState := Some (count, result)\<rparr> else s)"

definition async_rejected :: "nat \<Rightarrow> 'b asyncState \<Rightarrow> 'b asyncState" where
  \<comment> \<open>the \<^verbatim>\<open>catch\<close> block only logs\<close>
  "async_rejected count s = s"

definition async_value :: "'b asyncState \<Rightarrow> 'b option" where
  \<comment> \<open>\<^verbatim>\<open>sigState.get()?.value\<close>\<close>
  "async_value s = map_option snd (async_sigState s)"

section \<open>The bearing stays in range\<close>




section \<open>The great-circle distance is not negative\<close>

lemma atan2_nonneg: "0 \<le> y \<Longrightarrow> 0 \<le> atan2 y x"
proof -
  assume y: "0 \<le> y"
  have lo: "- (pi / 2) < arctan (y / x)" by (rule arctan_lbound)
  show ?thesis
  proof (cases "0 < x")
    case True
    then have "0 \<le> y / x" using y by simp
    then have "0 \<le> arctan (y / x)" by simp
    then show ?thesis using True by (simp add: atan2_def)
  next
    case False
    have "0 \<le> arctan (y / x) + pi" using lo pi_gt_zero by linarith
    then show ?thesis using False y by (simp add: atan2_def)
  qed
qed

lemma haversine_nonneg:
  fixes p1 p2 e :: real
  shows "0 \<le> (sin ((p2 - p1) / 2))\<^sup>2 + cos p1 * cos p2 * (sin (e / 2))\<^sup>2"
proof -
  define h where "h = (sin (e / 2))\<^sup>2"
  define C where "C = cos (p2 - p1)"
  define S where "S = cos (p1 + p2)"
  have h: "0 \<le> h" "h \<le> 1" by (simp_all add: h_def abs_square_le_1)
  have C: "C \<le> 1" by (simp add: C_def)
  have S: "- 1 \<le> S" by (simp add: S_def)
  have "2 * ((p2 - p1) / 2) = p2 - p1" by simp
  then have "C = 1 - 2 * (sin ((p2 - p1) / 2))\<^sup>2"
    unfolding C_def using cos_double_sin [of "(p2 - p1) / 2"] by (simp only:)
  then have s2: "(sin ((p2 - p1) / 2))\<^sup>2 = (1 - C) / 2" by simp
  have cc: "cos p1 * cos p2 = (C + S) / 2"
    using cos_times_cos [of p1 p2] by (simp add: C_def S_def cos_diff cos_add)
  have eq: "(1 - C) / 2 + (C + S) / 2 * h = ((1 - h) * (1 - C) + h * (1 + S)) / 2"
    by (simp add: field_simps)
  have n1: "0 \<le> (1 - h) * (1 - C)" using h C by simp
  have n2: "0 \<le> h * (1 + S)" using h S by simp
  have "0 \<le> (1 - h) * (1 - C) + h * (1 + S)" by (rule add_nonneg_nonneg [OF n1 n2])
  then have "0 \<le> ((1 - h) * (1 - C) + h * (1 + S)) / 2" by (rule divide_nonneg_nonneg) simp
  then have "0 \<le> (1 - C) / 2 + (C + S) / 2 * h" by (simp only: eq)
  then show ?thesis unfolding s2 cc h_def [symmetric] .
qed

lemma distance_nonneg: "0 \<le> distance a b"
proof -
  have "0 \<le> sqrt ((sin ((fst b - fst a) / 2))\<^sup>2
      + cos (fst a) * cos (fst b) * (sin ((snd b - snd a) / 2))\<^sup>2)"
    using haversine_nonneg by simp
  from atan2_nonneg [OF this] show ?thesis
    by (simp add: distance_def Let_def EARTH_RADIUS_def)
qed

lemma distance_same: "distance a a = 0"
  by (simp add: distance_def atan2_def)

section \<open>One run of the history recorder\<close>

lemma stored_history_set: "stored_history (lsv_set h s) = h"
  by (simp add: stored_history_def lsv_set_def lsv_get_def)

lemma stored_history_saved: "stored_history \<lparr>cached = None, saved = Some h\<rparr> = h"
  by (simp add: stored_history_def lsv_get_def)

lemma recordHistory_Position:
  "recordHistory st (Position p) =
     Inr (Position p, lsv_set (nextHistory (stored_history st) (radians p) p) (snd (lsv_get None st)))"
  by (simp add: recordHistory_def stored_history_def split: prod.splits)

lemma history_after_Position:
  "history_after st (Position p) = Inr (nextHistory (stored_history st) (radians p) p)"
  by (simp add: history_after_def recordHistory_Position stored_history_set)

lemma splice_front_length: "length (splice_front h) \<le> MAX_HISTORY_LENGTH"
  by (simp add: splice_front_def)

lemma splice_front_short: "length h \<le> MAX_HISTORY_LENGTH \<Longrightarrow> splice_front h = h"
  by (simp add: splice_front_def)

lemma splice_front_last: "h \<noteq> [] \<Longrightarrow> splice_front h \<noteq> [] \<and> last (splice_front h) = last h"
  by (auto simp: splice_front_def MAX_HISTORY_LENGTH_def)

lemma nextHistory_empty: "nextHistory [] c p = [plainEntry c p]"
  by (simp add: nextHistory_def splice_front_def at_last_def)

lemma nextHistory_append:
  "h \<noteq> [] \<Longrightarrow> \<not> mergeCondition c p (last h) \<Longrightarrow>
   nextHistory h c p = splice_front h @ [plainEntry c p]"
  using splice_front_last [of h] by (simp add: nextHistory_def at_last_def)

lemma nextHistory_merge:
  "h \<noteq> [] \<Longrightarrow> mergeCondition c p (last h) \<Longrightarrow>
   nextHistory h c p = butlast (splice_front h) @ [mergedEntry c p (last h)]"
  using splice_front_last [of h] by (simp add: nextHistory_def at_last_def)

lemma nextHistory_length: "length (nextHistory h c p) \<le> MAX_HISTORY_LENGTH + 1"
  using splice_front_length [of h]
  by (auto simp: nextHistory_def Let_def split: option.splits)

lemma mergedEntry_spec_blend:
  assumes "mergeCondition c location lastEntry"
  shows "mergedEntry c location lastEntry =
     spec_blend c (coords_accuracy location) (position_timestamp location)
       (coord lastEntry) (accuracy lastEntry) (timestamp lastEntry)"
proof -
  let ?sa = "coords_accuracy location" and ?la = "accuracy lastEntry"
  have pos: "0 < max ?la ?sa"
    using assms distance_nonneg [of c "coord lastEntry"] by (simp add: mergeCondition_def)
  show ?thesis
  proof (cases "?sa = ?la")
    case True
    then have "?sa \<noteq> 0" using pos by auto
    then show ?thesis using True
      by (simp add: mergedEntry_def spec_blend_def Let_def)
  next
    case False
    then show ?thesis
      by (auto simp: mergedEntry_def spec_blend_def Let_def)
  qed
qed

lemma mergedEntry_example:
  "mergedEntry (1, 2)
       \<lparr>latitude = 0, longitude = 0, coords_accuracy = 5, position_timestamp = 100\<rparr>
       \<lparr>coord = (3, 4), accuracy = 50, timestamp = 0\<rparr>
     = \<lparr>coord = (11 / 10, 21 / 10), accuracy = 5, timestamp = 50\<rparr>"
  by (simp add: mergedEntry_def)

text \<open>
  Claim C5. When the stored history is not empty, the sample is merged into the last
  entry exactly when its distance to that entry is strictly below the larger of the two
  accuracies and strictly less than 30000 ms have passed; otherwise a new entry is
  appended. At a distance equal to the larger accuracy, and at exactly 30000 ms, the
  sample is appended.
\<close>

theorem merge_exactly_when_close:
  assumes "stored_history st \<noteq> []"
      and "lastEntry = last (stored_history st)"
      and "c = radians location"
  shows "history_after st (Position location) =
           Inr (if distance c (coord lastEntry) < max (accuracy lastEntry) (coords_accuracy location)
                   \<and> position_timestamp location - timestamp lastEntry < 30000
                then butlast (splice_front (stored_history st)) @ [mergedEntry c location lastEntry]
                else splice_front (stored_history st) @ [plainEntry c location])
         \<and> (distance c (coord lastEntry) = max (accuracy lastEntry) (coords_accuracy location)
              \<longrightarrow> history_after st (Position location)
                    = Inr (splice_front (stored_history st) @ [plainEntry c location]))
         \<and> (position_timestamp location - timestamp lastEntry = 30000
              \<longrightarrow> history_after st (Position location)
                    = Inr (splice_front (stored_history st) @ [plainEntry c location]))"
proof -
  let ?h = "stored_history st"
  have m: "mergeCondition c location lastEntry \<Longrightarrow>
      history_after st (Position location) = Inr (butlast (splice_front ?h) @ [mergedEntry c location lastEntry])"
    using assms by (simp add: history_after_Position nextHistory_merge)
  have a: "\<not> mergeCondition c location lastEntry \<Longrightarrow>
      history_after st (Position location) = Inr (splice_front ?h @ [plainEntry c location])"
    using assms by (simp add: history_after_Position nextHistory_append)
  show ?thesis
  proof (cases "mergeCondition c location lastEntry")
    case True
    then show ?thesis using m [OF True] by (simp add: mergeCondition_def)
  next
    case False
    then show ?thesis using a [OF False] by (auto simp: mergeCondition_def)
  qed
qed

theorem merge_exactly_when_close_witness:
  "stored_history \<lparr>cached = None, saved = Some [\<lparr>coord = (0, 0), accuracy = 5, timestamp = 0\<rparr>]\<rparr> \<noteq> []
   \<and> history_after \<lparr>cached = None, saved = Some [\<lparr>coord = (0, 0), accuracy = 5, timestamp = 0\<rparr>]\<rparr>
         (Position \<lparr>latitude = 0, longitude = 0, coords_accuracy = 5, position_timestamp = 30000\<rparr>)
       = Inr [\<lparr>coord = (0, 0), accuracy = 5, timestamp = 0\<rparr>,
              \<lparr>coord = (0, 0), accuracy = 5, timestamp = 30000\<rparr>]
   \<and> history_after \<lparr>cached = None, saved = Some [\<lparr>coord = (0, 0), accuracy = 5, timestamp = 0\<rparr>]\<rparr>
         (Position \<lparr>latitude = 0, longitude = 0, coords_accuracy = 5, position_timestamp = 29999\<rparr>)
       = Inr [\<lparr>coord = (0, 0), accuracy = 5, timestamp = 29999 / 2\<rparr>]"
proof -
  define e0 :: LocationHistoryEntry where "e0 = \<lparr>coord = (0, 0), accuracy = 5, timestamp = 0\<rparr>"
  define st0 where "st0 = \<lparr>cached = None, saved = Some [e0]\<rparr>"
  define late where
    "late = \<lparr>latitude = 0, longitude = 0, coords_accuracy = 5, position_timestamp = 30000\<rparr>"
  define early where
    "early = \<lparr>latitude = 0, longitude = 0, coords_accuracy = 5, position_timestamp = 29999\<rparr>"
  have h: "stored_history st0 = [e0]" by (simp add: st0_def stored_history_saved)
  have a: "stored_history st0 \<noteq> []" by (simp add: h)
  have b: "e0 = last (stored_history st0)" by (simp add: h)
  have c: "(0, 0) = radians late" by (simp add: radians_def late_def)
  have c': "(0, 0) = radians early" by (simp add: radians_def early_def)
  have sp: "splice_front [e0] = [e0]" by (simp add: splice_front_def MAX_HISTORY_LENGTH_def)
  have t: "position_timestamp late - timestamp e0 = 30000" by (simp add: late_def e0_def)
  from merge_exactly_when_close [OF a b c] t
  have "history_after st0 (Position late)
          = Inr (splice_front (stored_history st0) @ [plainEntry (0, 0) late])"
    by blast
  then have "history_after st0 (Position late) = Inr [e0, plainEntry (0, 0) late]"
    by (simp only: h sp append.simps)
  moreover have "plainEntry (0, 0) late = \<lparr>coord = (0, 0), accuracy = 5, timestamp = 30000\<rparr>"
    by (simp add: plainEntry_def late_def)
  ultimately have 1: "history_after st0 (Position late)
      = Inr [e0, \<lparr>coord = (0, 0), accuracy = 5, timestamp = 30000\<rparr>]"
    by simp
  have d: "distance (0, 0) (coord e0) < max (accuracy e0) (coords_accuracy early)
      \<and> position_timestamp early - timestamp e0 < 30000"
    by (simp add: e0_def early_def distance_same)
  from merge_exactly_when_close [OF a b c'] d
  have "history_after st0 (Position early)
          = Inr (butlast (splice_front (stored_history st0)) @ [mergedEntry (0, 0) early e0])"
    by presburger
  then have "history_after st0 (Position early) = Inr [mergedEntry (0, 0) early e0]"
    by (simp add: h sp)
  moreover have "mergedEntry (0, 0) early e0 = \<lparr>coord = (0, 0), accuracy = 5, timestamp = 29999 / 2\<rparr>"
    by (simp add: mergedEntry_def early_def e0_def)
  ultimately have 2: "history_after st0 (Position early)
      = Inr [\<lparr>coord = (0, 0), accuracy = 5, timestamp = 29999 / 2\<rparr>]"
    by simp
  show ?thesis using a 1 2 unfolding st0_def e0_def late_def early_def by (intro conjI)
qed

text \<open>
  Claim C6. When the merge condition holds, the last entry is replaced by the blend in
  the words of the specification (\<open>spec_blend\<close>): \<open>t\<close> is half the ratio of the smaller to the
  larger accuracy, the more accurate position has weight \<open>1 - t\<close> and the other weight
  \<open>t\<close> on latitude and longitude, the accuracy is the smaller one and the timestamp the
  mean of the two.
\<close>

theorem merged_entry_is_weighted_blend:
  assumes "stored_history st \<noteq> []"
      and "lastEntry = last (stored_history st)"
      and "c = radians location"
      and "mergeCondition c location lastEntry"
  shows "history_after st (Position location) =
           Inr (butlast (splice_front (stored_history st)) @
                [spec_blend c (coords_accuracy location) (position_timestamp location)
                   (coord lastEntry) (accuracy lastEntry) (timestamp lastEntry)])"
  using assms mergedEntry_spec_blend [OF assms(4)]
  by (simp add: history_after_Position nextHistory_merge)

theorem merged_entry_is_weighted_blend_witness:
  "mergeCondition (0, 0)
       \<lparr>latitude = 0, longitude = 0, coords_accuracy = 5, position_timestamp = 29999\<rparr>
       \<lparr>coord = (0, 0), accuracy = 50, timestamp = 0\<rparr>
   \<and> history_after \<lparr>cached = None, saved = Some [\<lparr>coord = (0, 0), accuracy = 50, timestamp = 0\<rparr>]\<rparr>
         (Position \<lparr>latitude = 0, longitude = 0, coords_accuracy = 5, position_timestamp = 29999\<rparr>)
       = Inr [\<lparr>coord = (0, 0), accuracy = 5, timestamp = 29999 / 2\<rparr>]"
proof -
  define e0 :: LocationHistoryEntry where "e0 = \<lparr>coord = (0, 0), accuracy = 50, timestamp = 0\<rparr>"
  define st0 where "st0 = \<lparr>cached = None, saved = Some [e0]\<rparr>"
  define loc where
    "loc = \<lparr>latitude = 0, longitude = 0, coords_accuracy = 5, position_timestamp = 29999\<rparr>"
  have h: "stored_history st0 = [e0]" by (simp add: st0_def stored_history_saved)
  have a: "stored_history st0 \<noteq> []" by (simp add: h)
  have b: "e0 = last (stored_history st0)" by (simp add: h)
  have c: "(0, 0) = radians loc" by (simp add: radians_def loc_def)
  have sp: "splice_front [e0] = [e0]" by (simp add: splice_front_def MAX_HISTORY_LENGTH_def)
  have m: "mergeCondition (0, 0) loc e0"
    by (simp add: mergeCondition_def e0_def loc_def distance_same)
  have "history_after st0 (Position loc) =
      Inr (butlast (splice_front (stored_history st0)) @
           [spec_blend (0, 0) (coords_accuracy loc) (position_timestamp loc)
              (coord e0) (accuracy e0) (timestamp e0)])"
    by (rule merged_entry_is_weighted_blend [OF a b c m])
  then have "history_after st0 (Position loc) =
      Inr [spec_blend (0, 0) (coords_accuracy loc) (position_timestamp loc)
              (coord e0) (accuracy e0) (timestamp e0)]"
    by (simp add: h sp)
  moreover have "spec_blend (0, 0) (coords_accuracy loc) (position_timestamp loc)
              (coord e0) (accuracy e0) (timestamp e0)
      = \<lparr>coord = (0, 0), accuracy = 5, timestamp = 29999 / 2\<rparr>"
    by (simp add: spec_blend_def loc_def e0_def)
  ultimately have "history_after st0 (Position loc)
      = Inr [\<lparr>coord = (0, 0), accuracy = 5, timestamp = 29999 / 2\<rparr>]"
    by simp
  then show ?thesis using m unfolding st0_def e0_def loc_def by (intro conjI)
qed

section \<open>The length of the history\<close>

lemma recordAll_append:
  "recordAll s (xs @ ys) = (case recordAll s xs of Inl e \<Rightarrow> Inl e | Inr s' \<Rightarrow> recordAll s' ys)"
  by (induction xs arbitrary: s) (auto split: sum.splits)

lemma splice_front_drop:
  "splice_front (drop (length xs - 101) xs) = drop (length xs - 100) xs"
proof (cases "length xs \<le> 100")
  case True
  then show ?thesis by (simp add: splice_front_def MAX_HISTORY_LENGTH_def)
next
  case False
  then have "length (drop (length xs - 101) xs) = 101" by simp
  then have "splice_front (drop (length xs - 101) xs) = drop 1 (drop (length xs - 101) xs)"
    by (simp add: splice_front_def MAX_HISTORY_LENGTH_def)
  also have "\<dots> = drop (1 + (length xs - 101)) xs" by (simp only: drop_drop)
  also have "1 + (length xs - 101) = length xs - 100" using False by simp
  finally show ?thesis .
qed

lemma fix_at_not_merged: "\<not> mergeCondition c (fix_at (Suc n)) (plainEntry c' (fix_at n))"
  by (simp add: mergeCondition_def fix_at_def plainEntry_def algebra_simps)

lemma recordAll_snoc:
  assumes "recordAll s0 locs = Inr s"
  shows "recordAll s0 (locs @ [Position p]) =
     Inr (lsv_set (nextHistory (stored_history s) (radians p) p) (snd (lsv_get None s)))"
  by (simp add: recordAll_append assms recordHistory_Position)

lemma nextHistory_fix:
  assumes h: "h = drop (n - 101) (map (plainEntry (0, 0) \<circ> fix_at) [0..<n])"
  shows "nextHistory h (0, 0) (fix_at n)
           = drop (Suc n - 101) (map (plainEntry (0, 0) \<circ> fix_at) [0..<Suc n])"
proof -
  let ?all = "map (plainEntry (0, 0) \<circ> fix_at) [0..<n]"
  have len: "length ?all = n" by simp
  have tgt: "drop (Suc n - 101) (map (plainEntry (0, 0) \<circ> fix_at) [0..<Suc n])
               = drop (n - 100) ?all @ [plainEntry (0, 0) (fix_at n)]"
    by simp
  show ?thesis
  proof (cases n)
    case 0
    then have "h = []" using h by simp
    then show ?thesis unfolding tgt using 0 by (simp add: nextHistory_empty)
  next
    case (Suc m)
    have ne: "h \<noteq> []" using h Suc by simp
    have "last h = last ?all" using h Suc by simp
    also have "\<dots> = plainEntry (0, 0) (fix_at m)" using Suc by simp
    finally have l: "last h = plainEntry (0, 0) (fix_at m)" .
    have nm: "\<not> mergeCondition (0, 0) (fix_at n) (last h)"
      unfolding l Suc by (rule fix_at_not_merged)
    have sp: "splice_front h = drop (n - 100) ?all"
      using splice_front_drop [of ?all] unfolding len h .
    show ?thesis unfolding tgt nextHistory_append [OF ne nm] sp ..
  qed
qed

lemma recordAll_fixes:
  "\<exists>s. recordAll empty_store (map (Position \<circ> fix_at) [0..<n]) = Inr s
      \<and> stored_history s = drop (n - 101) (map (plainEntry (0, 0) \<circ> fix_at) [0..<n])"
proof (induction n)
  case 0
  show ?case by (simp add: stored_history_def empty_store_def lsv_get_def)
next
  case (Suc n)
  then obtain s where s: "recordAll empty_store (map (Position \<circ> fix_at) [0..<n]) = Inr s"
    and h: "stored_history s = drop (n - 101) (map (plainEntry (0, 0) \<circ> fix_at) [0..<n])"
    by blast
  let ?all = "map (plainEntry (0, 0) \<circ> fix_at) [0..<n]"
  let ?s' = "lsv_set (nextHistory (stored_history s) (radians (fix_at n)) (fix_at n))
               (snd (lsv_get None s))"
  have r: "radians (fix_at n) = (0, 0)" by (simp add: radians_def fix_at_def)
  have run: "recordAll empty_store (map (Position \<circ> fix_at) [0..<Suc n]) = Inr ?s'"
    by (simp add: recordAll_append s recordHistory_Position)
  have nh: "nextHistory (stored_history s) (0, 0) (fix_at n)
                = drop (n - 100) ?all @ [plainEntry (0, 0) (fix_at n)]"
  proof (cases n)
    case 0
    then show ?thesis using h by (simp add: nextHistory_empty)
  next
    case (Suc m)
    have ne: "stored_history s \<noteq> []" using h Suc by simp
    have "last (stored_history s) = last ?all" using h Suc by simp
    also have "\<dots> = plainEntry (0, 0) (fix_at m)" using Suc by simp
    finally have l: "last (stored_history s) = plainEntry (0, 0) (fix_at m)" .
    have "nextHistory (stored_history s) (0, 0) (fix_at n)
            = splice_front (stored_history s) @ [plainEntry (0, 0) (fix_at n)]"
      using fix_at_not_merged [of "(0, 0)" m "(0, 0)"] l Suc
      by (simp add: nextHistory_append [OF ne])
    also have "splice_front (stored_history s) = drop (n - 100) ?all"
      using splice_front_drop [of ?all] h by simp
    finally show ?thesis .
  qed
  have "stored_history ?s' = drop (Suc n - 101) (map (plainEntry (0, 0) \<circ> fix_at) [0..<Suc n])"
    by (simp add: stored_history_set r nh)
  with run show ?case by blast
qed

text \<open>
  Claim C1. The history is cut to \<open>MAX_HISTORY_LENGTH\<close> before the new entry is added, not
  after. After 150 samples of which none is merged (one every 30 s), starting from an
  empty store, the stored history holds 101 entries, the fixes number 49 to 149: one more
  than the limit of 100.
\<close>

theorem history_grows_past_max:
  "MAX_HISTORY_LENGTH = 100
   \<and> map_sum id stored_history (recordAll empty_store (map (Position \<circ> fix_at) [0..<150]))
       = Inr (map (plainEntry (0, 0) \<circ> fix_at) [49..<150])
   \<and> length (map (plainEntry (0, 0) \<circ> fix_at) [49..<150]) = 101"
proof -
  from recordAll_fixes [of 150]
  obtain s where sh: "recordAll empty_store (map (Position \<circ> fix_at) [0..<150]) = Inr s
      \<and> stored_history s = drop (150 - 101) (map (plainEntry (0, 0) \<circ> fix_at) [0..<150])" ..
  have n: "0 + (150 - 101) = (49::nat)" by simp
  have d: "drop (150 - 101) (map (plainEntry (0, 0) \<circ> fix_at) [0..<150])
          = map (plainEntry (0, 0) \<circ> fix_at) [49..<150]"
    by (simp only: drop_map drop_upt n)
  have k: "150 - 49 = (101::nat)" by simp
  have l: "length (map (plainEntry (0, 0) \<circ> fix_at) [49..<150]) = 101"
    by (simp only: length_map length_upt k)
  have m: "map_sum id stored_history (recordAll empty_store (map (Position \<circ> fix_at) [0..<150]))
       = Inr (map (plainEntry (0, 0) \<circ> fix_at) [49..<150])"
    using sh d by (simp only: map_sum.simps)
  have x: "MAX_HISTORY_LENGTH = 100" by (simp add: MAX_HISTORY_LENGTH_def)
  show ?thesis using x m l by (intro conjI)
qed

section \<open>Locations that are not a position\<close>

text \<open>
  Claim C8, as the specification states it, fails: given an error, \<^verbatim>\<open>$recordHistory\<close>
  throws nothing. It returns the error and leaves the store as it was.
\<close>

theorem error_location_not_thrown:
  "recordHistory empty_store (PositionError ''denied'')
     = Inr (PositionError ''denied'', empty_store)"
  by (simp add: recordHistory_def)

text \<open>
  Claim C8, amended. Given \<^verbatim>\<open>undefined\<close> or an error, \<^verbatim>\<open>$recordHistory\<close> returns it
  unchanged, throws nothing and leaves the stored history unchanged. It is
  \<open>parseLocationEvent\<close>, called with such a value, that throws.
\<close>

theorem recordHistory_passes_through:
  "recordHistory st Undefined = Inr (Undefined, st)
   \<and> recordHistory st (PositionError m) = Inr (PositionError m, st)
   \<and> parseLocationEvent Undefined = Inl (Error ''No location available'')
   \<and> parseLocationEvent (PositionError m) = Inl (ThrownPositionError m)"
  by (simp add: recordHistory_def)

section \<open>Clearing the bookmarks\<close>

lemma clear_get: "lsv_get None (lsv_clear s) = (None, empty_store)"
  by (simp add: lsv_clear_def lsv_get_def empty_store_def)

lemma get_set: "lsv_get d (lsv_set v s) = (Some v, lsv_set v s)"
  by (simp add: lsv_set_def lsv_get_def)

lemma add_after_clear:
  "addBookmark r now point (lsv_clear s)
     = lsv_set [\<lparr>bookmark_coord = point, hue = r * 360, label = None, createdAt = Some now\<rparr>] empty_store"
  by (simp add: addBookmark_def clear_get)

text \<open>
  Claim C10. After \<^verbatim>\<open>clear()\<close> the next \<^verbatim>\<open>get()\<close> of the bookmark store returns
  \<^verbatim>\<open>undefined\<close>, not the empty array: the cache and the saved item are both gone and the
  store has no default value. The caller \<open>addBookmark\<close> reads \<^verbatim>\<open>undefined\<close> as the empty
  sequence.
\<close>

theorem get_after_clear_is_undefined:
  "fst (lsv_get None (clearBookmarks bookmarks)) = None
   \<and> fst (lsv_get None (clearBookmarks bookmarks)) \<noteq> Some []
   \<and> snd (lsv_get None (clearBookmarks bookmarks)) = empty_store
   \<and> fst (lsv_get None (addBookmark r now point (clearBookmarks bookmarks)))
       = Some [\<lparr>bookmark_coord = point, hue = r * 360, label = None, createdAt = Some now\<rparr>]"
  by (simp add: clearBookmarks_def clear_get add_after_clear get_set)

section \<open>The life cycle of a listening signal\<close>














section \<open>Late results of asyncComputed\<close>

text \<open>
  Claim C7. A resolved result is applied only when nothing was applied yet or when its
  count is greater than the count of the result applied last. So when two calls start
  one after the other and the second resolves first, the value is the second result, and
  the first result, arriving late, changes nothing. The hypothesis says that the result
  applied so far, if any, belongs to a call that has already started.
\<close>

theorem stale_result_discarded:
  assumes "case async_sigState s of None \<Rightarrow> True | Some current \<Rightarrow> fst current < counter s"
      and "async_start s = (c1, s1)"
      and "async_start s1 = (c2, s2)"
  shows "c1 < c2
         \<and> async_value (async_resolved c2 r2 s2) = Some r2
         \<and> async_resolved c1 r1 (async_resolved c2 r2 s2) = async_resolved c2 r2 s2
         \<and> async_value (async_resolved c1 r1 (async_resolved c2 r2 s2)) = Some r2
         \<and> (async_sigState t = None \<longrightarrow>
              async_resolved c r t = t\<lparr>async_sigState := Some (c, r)\<rparr>)
         \<and> (async_sigState t = Some (k, x) \<longrightarrow>
              async_resolved c r t = (if k < c then t\<lparr>async_sigState := Some (c, r)\<rparr> else t))"
proof -
  have c: "c1 = counter s" "c2 = counter s + 1" "s2 = s\<lparr>counter := counter s + 2\<rparr>"
    using assms(2,3) by (auto simp: async_start_def)
  have ap: "async_resolved c2 r2 s2 = s2\<lparr>async_sigState := Some (c2, r2)\<rparr>"
    using assms(1) c by (auto simp: async_resolved_def split: option.splits)
  have st: "async_resolved c1 r1 (s2\<lparr>async_sigState := Some (c2, r2)\<rparr>)
              = s2\<lparr>async_sigState := Some (c2, r2)\<rparr>"
    using c by (simp add: async_resolved_def)
  have g: "(async_sigState t = None \<longrightarrow>
              async_resolved c r t = t\<lparr>async_sigState := Some (c, r)\<rparr>)
         \<and> (async_sigState t = Some (k, x) \<longrightarrow>
              async_resolved c r t = (if k < c then t\<lparr>async_sigState := Some (c, r)\<rparr> else t))"
    by (simp add: async_resolved_def)
  show ?thesis using c ap st g by (simp add: async_value_def)
qed

theorem stale_result_discarded_witness:
  "async_value (async_resolved 1 ''slow'' (async_resolved 2 ''fast''
      (snd (async_start (snd (async_start (snd (async_start async_init)))))))) = Some ''fast''"
proof -
  define s :: "string asyncState" where "s = snd (async_start async_init)"
  have a: "case async_sigState s of None \<Rightarrow> True | Some current \<Rightarrow> fst current < counter s"
    by (simp add: s_def async_start_def async_init_def)
  have b: "async_start s = (1, snd (async_start s))"
    by (simp add: s_def async_start_def async_init_def)
  have c: "async_start (snd (async_start s)) = (2, snd (async_start (snd (async_start s))))"
    by (simp add: s_def async_start_def async_init_def)
  note w = stale_result_discarded [OF a b c, of "''fast''" "''slow''"]
  from w [THEN conjunct2, THEN conjunct2, THEN conjunct2, THEN conjunct1]
  show ?thesis unfolding s_def .
qed

end
